theory Spec2Isabelle
  imports Complex_Main
begin

section \<open>Data model\<close>

text \<open>
  The book-lending tracker keeps two tables, Book and Rental, behind the Prisma client.
  Identifiers are strings. A \<open>Date\<close> is modelled by its \<open>getTime()\<close> value (a natural
  number of milliseconds), which is also what the client recovers with
  \<open>new Date(s).getTime()\<close> from the serialised string. A rental is active while its
  \<open>returnedAt\<close> is null (\<open>None\<close>).

  The User table belongs to the identity provider and is not modelled: the included
  \<open>owner.id\<close> of a book is its \<open>ownerId\<close>, the included \<open>user.id\<close> of a rental is its
  \<open>userId\<close>.
\<close>

record book =
  book_id :: string
  title :: string
  author :: string
  isbn :: "string option"
  description :: "string option"
  coverImage :: string
  ownerId :: string
  createdAt :: nat

record rental =
  rental_id :: string
  bookId :: string
  userId :: string
  rentedAt :: nat
  returnedAt :: "nat option"

record store =
  book_tbl :: "book list"
  rental_tbl :: "rental list"

text \<open>
  The JSON a book is serialised to by the read handlers: the row, the included rentals and
  the two derived fields.
\<close>

record book_json =
  data :: book
  rentals :: "rental list"
  isAvailable :: bool
  currentRental :: "rental option"

text \<open>
  A JSON value, as \<open>request.json()\<close> answers it. The handler has no test of the type
  of a value; of a number it only looks at whether it is zero.
\<close>

datatype json =
    JNull
  | JBool bool
  | JNumber real
  | JString string
  | JArray "json list"
  | JObject "(string \<times> json) list"

text \<open>
  The body of \<open>POST /api/books\<close> after destructuring: each field is the JSON value
  under its key, of any type, or \<open>None\<close> (undefined) when the body has no such key. A
  body that is a number, a string, a boolean or an array has none of the keys.
\<close>

record create_body =
  title_in :: "json option"
  author_in :: "json option"
  isbn_in :: "json option"
  description_in :: "json option"
  coverImage_in :: "json option"

text \<open>
  The value of \<open>session?.user?.id\<close>: \<open>None\<close> when the session, its user or the id is
  missing.
\<close>

type_synonym session = "string option"

text \<open>
  Every failure is a JSON body \<open>{error: message}\<close> with an HTTP status. The constructors
  are the names of the error taxonomy; \<open>status\<close> is the status the handlers send. The
  double-rent failure (\<open>Conflict\<close>) is sent with status 400, like \<open>BadRequest\<close>.
\<close>

datatype error =
    Unauthorized string
  | Forbidden string
  | NotFound string
  | Conflict string
  | BadRequest string
  | Internal string

fun status :: "error \<Rightarrow> nat" where
  "status (Unauthorized m) = 401"
| "status (Forbidden m) = 403"
| "status (NotFound m) = 404"
| "status (Conflict m) = 400"
| "status (BadRequest m) = 400"
| "status (Internal m) = 500"

text \<open>JavaScript's \<open>!v\<close> on a value that is a string, null or undefined.\<close>

definition falsy :: "string option \<Rightarrow> bool" where
  "falsy v = (case v of None \<Rightarrow> True | Some x \<Rightarrow> x = [])"

text \<open>
  JavaScript's \<open>!v\<close> on a field of the parsed body: undefined, null, \<open>false\<close>, zero and
  the empty string are falsy; every other value, also an array or an object, is truthy.
\<close>

fun falsy_json :: "json option \<Rightarrow> bool" where
  "falsy_json None = True"
| "falsy_json (Some JNull) = True"
| "falsy_json (Some (JBool b)) = (\<not> b)"
| "falsy_json (Some (JNumber n)) = (n = 0)"
| "falsy_json (Some (JString x)) = (x = [])"
| "falsy_json (Some (JArray xs)) = False"
| "falsy_json (Some (JObject kvs)) = False"

section \<open>The store\<close>

text \<open>
  Modelled from the spec: the Prisma schema is not among the sources, so the column
  defaults are taken from the data model of the specification: a created row gets a new
  identifier, a Book gets its creation timestamp, a Rental gets \<open>rentedAt = now\<close> and
  \<open>returnedAt = null\<close>. The generated identifier is a string that no row of the table
  carries: one character longer than the longest identifier present.
\<close>

definition fresh_id :: "string list \<Rightarrow> string" where
  "fresh_id ids = replicate (Suc (foldr (\<lambda>i n. max (length i) n) ids 0)) (CHR ''c'')"

text \<open>\<open>orderBy: {field: "desc"}\<close> and the client's descending \<open>sort\<close>, both stable.\<close>

definition sort_desc :: "('a \<Rightarrow> nat) \<Rightarrow> 'a list \<Rightarrow> 'a list" where
  "sort_desc f xs = sort_key (\<lambda>x. - int (f x)) xs"

text \<open>
  Modelled from the spec: the Prisma schema is not among the sources. By the data model
  of the specification, title, author and the cover image reference of a Book are
  strings, and ISBN and description are optional strings. \<open>prisma.book.create\<close> throws
  on an argument of another type: a required string column takes a string only, an
  optional one also takes undefined and null (both stored as null). It answers \<open>None\<close>
  where the client throws.
\<close>

fun string_arg :: "json option \<Rightarrow> string option" where
  "string_arg (Some (JString x)) = Some x"
| "string_arg v = None"

fun optional_string_arg :: "json option \<Rightarrow> string option option" where
  "optional_string_arg None = Some None"
| "optional_string_arg (Some JNull) = Some None"
| "optional_string_arg (Some (JString x)) = Some (Some x)"
| "optional_string_arg v = None"

definition book_create :: "create_body \<Rightarrow> string \<Rightarrow> nat \<Rightarrow> store \<Rightarrow> (book \<times> store) option" where
  "book_create b owner now s =
     (case string_arg (title_in b) of None \<Rightarrow> None | Some t \<Rightarrow>
      case string_arg (author_in b) of None \<Rightarrow> None | Some a \<Rightarrow>
      case optional_string_arg (isbn_in b) of None \<Rightarrow> None | Some i \<Rightarrow>
      case optional_string_arg (description_in b) of None \<Rightarrow> None | Some d \<Rightarrow>
      case string_arg (coverImage_in b) of None \<Rightarrow> None | Some c \<Rightarrow>
        let book = \<lparr>book_id = fresh_id (map book_id (book_tbl s)),
                    title = t, author = a, isbn = i, description = d, coverImage = c,
                    ownerId = owner, createdAt = now\<rparr>
        in Some (book, s\<lparr>book_tbl := book_tbl s @ [book]\<rparr>))"

text \<open>\<open>prisma.book.findUnique({where: {id}})\<close>\<close>

definition book_findUnique :: "string \<Rightarrow> store \<Rightarrow> book option" where
  "book_findUnique bid s = find (\<lambda>b. book_id b = bid) (book_tbl s)"

text \<open>The include \<open>rentals: {where: {returnedAt: null}}\<close> of a book.\<close>

definition active_rentals :: "string \<Rightarrow> store \<Rightarrow> rental list" where
  "active_rentals bid s = filter (\<lambda>r. bookId r = bid \<and> returnedAt r = None) (rental_tbl s)"

text \<open>\<open>prisma.rental.findFirst({where: {bookId: id, returnedAt: null}})\<close>\<close>

definition rental_findFirst_active :: "string \<Rightarrow> store \<Rightarrow> rental option" where
  "rental_findFirst_active bid s =
     find (\<lambda>r. bookId r = bid \<and> returnedAt r = None) (rental_tbl s)"

text \<open>\<open>prisma.rental.update({where: {id}, data: {returnedAt: new Date()}})\<close>\<close>

definition rental_update_returnedAt :: "string \<Rightarrow> nat \<Rightarrow> store \<Rightarrow> store" where
  "rental_update_returnedAt rid now s =
     s\<lparr>rental_tbl :=
         map (\<lambda>r. if rental_id r = rid then r\<lparr>returnedAt := Some now\<rparr> else r) (rental_tbl s)\<rparr>"

text \<open>\<open>prisma.rental.deleteMany({where: {bookId: id}})\<close>\<close>

definition rental_deleteMany :: "string \<Rightarrow> store \<Rightarrow> store" where
  "rental_deleteMany bid s = s\<lparr>rental_tbl := filter (\<lambda>r. bookId r \<noteq> bid) (rental_tbl s)\<rparr>"

text \<open>\<open>prisma.book.delete({where: {id}})\<close>\<close>

definition book_delete :: "string \<Rightarrow> store \<Rightarrow> store" where
  "book_delete bid s = s\<lparr>book_tbl := filter (\<lambda>b. book_id b \<noteq> bid) (book_tbl s)\<rparr>"

section \<open>Route handlers\<close>

text \<open>
  Each handler takes the session, the request and the store, and returns the response
  with the store it leaves. The \<open>catch\<close> branches (status 500) answer a failure of the
  database connection, which the model does not have, and, in \<open>POST_books\<close>, a body that
  cannot be read or destructured (the body \<open>None\<close>: \<open>request.json()\<close> throws, or it
  answers null) and a field that \<open>prisma.book.create\<close> rejects.
\<close>

subsection \<open>\<open>/api/books\<close>\<close>

definition with_status :: "book \<times> rental list \<Rightarrow> book_json" where
  "with_status br =
     \<lparr>data = fst br, rentals = snd br,
      isAvailable = (length (snd br) = 0),
      currentRental = (case snd br of [] \<Rightarrow> None | r # rs \<Rightarrow> Some r)\<rparr>"

definition GET_books :: "string option \<Rightarrow> store \<Rightarrow> book_json list" where
  "GET_books available s =
     (let books = map (\<lambda>b. (b, active_rentals (book_id b) s))
                      (sort_desc createdAt (book_tbl s));
          filteredBooks =
            (if available = Some ''true'' then filter (\<lambda>br. length (snd br) = 0) books
             else if available = Some ''false'' then filter (\<lambda>br. length (snd br) > 0) books
             else books)
      in map with_status filteredBooks)"

definition POST_books ::
  "session \<Rightarrow> create_body option \<Rightarrow> nat \<Rightarrow> store \<Rightarrow> (error + book) \<times> store" where
  "POST_books session body now s =
     (if falsy session then (Inl (Unauthorized ''Unauthorized''), s)
      else case body of
        None \<Rightarrow> (Inl (Internal ''Failed to create book''), s)
      | Some b \<Rightarrow>
          if falsy_json (title_in b) \<or> falsy_json (author_in b) \<or> falsy_json (coverImage_in b)
          then (Inl (BadRequest ''Title, author and cover image are required''), s)
          else
            case book_create b (the session) now s of
              None \<Rightarrow> (Inl (Internal ''Failed to create book''), s)
            | Some created \<Rightarrow> (Inr (fst created), snd created))"

subsection \<open>\<open>/api/books/[id]\<close>\<close>

definition GET_book :: "string \<Rightarrow> store \<Rightarrow> error + book_json" where
  "GET_book bid s =
     (case book_findUnique bid s of
        None \<Rightarrow> Inl (NotFound ''Book not found'')
      | Some book \<Rightarrow>
          let rs = sort_desc rentedAt (filter (\<lambda>r. bookId r = bid) (rental_tbl s));
              activeRental = find (\<lambda>r. returnedAt r = None) rs
          in Inr \<lparr>data = book, rentals = rs,
                  isAvailable = (activeRental = None),
                  currentRental = activeRental\<rparr>)"

definition DELETE_book :: "session \<Rightarrow> string \<Rightarrow> store \<Rightarrow> (error + bool) \<times> store" where
  "DELETE_book session bid s =
     (if falsy session then (Inl (Unauthorized ''Unauthorized''), s)
      else case book_findUnique bid s of
        None \<Rightarrow> (Inl (NotFound ''Book not found''), s)
      | Some book \<Rightarrow>
          if ownerId book \<noteq> the session
          then (Inl (Forbidden ''Only the owner can delete this book''), s)
          else (Inr True, book_delete bid (rental_deleteMany bid s)))"

subsection \<open>\<open>/api/books/[id]/rent\<close>\<close>

definition POST_rent :: "session \<Rightarrow> string \<Rightarrow> nat \<Rightarrow> store \<Rightarrow> (error + rental) \<times> store" where
  "POST_rent session bid now s =
     (if falsy session then (Inl (Unauthorized ''Unauthorized''), s)
      else case book_findUnique bid s of
        None \<Rightarrow> (Inl (NotFound ''Book not found''), s)
      | Some book \<Rightarrow>
          if length (active_rentals bid s) > 0
          then (Inl (Conflict ''Book is already rented''), s)
          else
            let rental = \<lparr>rental_id = fresh_id (map rental_id (rental_tbl s)),
                          bookId = bid,
                          userId = the session,
                          rentedAt = now,
                          returnedAt = None\<rparr>
            in (Inr rental, s\<lparr>rental_tbl := rental_tbl s @ [rental]\<rparr>))"

definition DELETE_rent :: "session \<Rightarrow> string \<Rightarrow> nat \<Rightarrow> store \<Rightarrow> (error + rental) \<times> store" where
  "DELETE_rent session bid now s =
     (if falsy session then (Inl (Unauthorized ''Unauthorized''), s)
      else case rental_findFirst_active bid s of
        None \<Rightarrow> (Inl (NotFound ''No active rental found for this book''), s)
      | Some activeRental \<Rightarrow>
          if userId activeRental \<noteq> the session
          then (Inl (Forbidden ''You can only return books you have rented''), s)
          else (Inr (activeRental\<lparr>returnedAt := Some now\<rparr>),
                rental_update_returnedAt (rental_id activeRental) now s))"

subsection \<open>\<open>/api/rentals/my\<close>\<close>

definition GET_rentals_my :: "session \<Rightarrow> store \<Rightarrow> error + rental list" where
  "GET_rentals_my session s =
     (if falsy session then Inl (Unauthorized ''Unauthorized'')
      else Inr (sort_desc rentedAt (filter (\<lambda>r. userId r = the session) (rental_tbl s))))"

section \<open>The "my rentals" projection of the client\<close>

text \<open>
  \<open>MyBooksPage.fetchData\<close> fetches \<open>/api/books\<close> without a filter and walks the books:
  it pushes the rentals of the book that belong to the user, then the current rental if
  it belongs to the user and no pushed rental has its identifier, and sorts by
  \<open>rentedAt\<close> descending. A pushed entry is the rental together with its book.
\<close>

fun collect_rentals ::
  "string \<Rightarrow> book_json list \<Rightarrow> (rental \<times> book_json) list \<Rightarrow> (rental \<times> book_json) list" where
  "collect_rentals uid [] acc = acc"
| "collect_rentals uid (book # allBooks) acc =
     (let acc1 = acc @ map (\<lambda>r. (r, book)) (filter (\<lambda>r. userId r = uid) (rentals book));
          acc2 = (case currentRental book of
                    None \<Rightarrow> acc1
                  | Some cr \<Rightarrow>
                      if userId cr = uid
                      then (if list_ex (\<lambda>e. rental_id (fst e) = rental_id cr) acc1
                            then acc1 else acc1 @ [(cr, book)])
                      else acc1)
      in collect_rentals uid allBooks acc2)"

definition my_rentals :: "string \<Rightarrow> book_json list \<Rightarrow> (rental \<times> book_json) list" where
  "my_rentals uid allBooks = sort_desc (\<lambda>e. rentedAt (fst e)) (collect_rentals uid allBooks [])"

definition fetchData :: "session \<Rightarrow> store \<Rightarrow> (rental \<times> book_json) list option" where
  "fetchData session s =
     (if falsy session then None else Some (my_rentals (the session) (GET_books None s)))"

section \<open>Requests as a transition system\<close>

datatype request =
    CreateBook session "create_body option" nat
  | DeleteBook session string
  | RentBook session string nat
  | ReturnBook session string nat

fun step :: "store \<Rightarrow> request \<Rightarrow> store" where
  "step s (CreateBook session body now) = snd (POST_books session body now s)"
| "step s (DeleteBook session bid) = snd (DELETE_book session bid s)"
| "step s (RentBook session bid now) = snd (POST_rent session bid now s)"
| "step s (ReturnBook session bid now) = snd (DELETE_rent session bid now s)"

definition run :: "store \<Rightarrow> request list \<Rightarrow> store" where
  "run s reqs = foldl step s reqs"

definition empty_store :: store where
  "empty_store = \<lparr>book_tbl = [], rental_tbl = []\<rparr>"

section \<open>Vocabulary of the properties\<close>

text \<open>An active rental of a book: a row of the Rental table for it whose \<open>returnedAt\<close> is null.\<close>

definition is_active_rental :: "store \<Rightarrow> string \<Rightarrow> rental \<Rightarrow> bool" where
  "is_active_rental s bid r = (r \<in> set (rental_tbl s) \<and> bookId r = bid \<and> returnedAt r = None)"

section \<open>Example stores\<close>

text \<open>
  One book of alice, in the three states of the rental life cycle: never rented, rented by
  bob, returned by bob. The identifiers are the ones the store generates from the empty
  store.
\<close>

definition dune_body :: create_body where
  "dune_body = \<lparr>title_in = Some (JString ''Dune''), author_in = Some (JString ''Herbert''),
                 isbn_in = None, description_in = None,
                 coverImage_in = Some (JString ''dune.png'')\<rparr>"

text \<open>The same request with a number as title, and with a number as ISBN.\<close>

definition numeric_title_body :: create_body where
  "numeric_title_body = dune_body\<lparr>title_in := Some (JNumber 123)\<rparr>"

definition numeric_isbn_body :: create_body where
  "numeric_isbn_body = dune_body\<lparr>isbn_in := Some (JNumber 5)\<rparr>"

definition dune :: book where
  "dune = \<lparr>book_id = ''c'', title = ''Dune'', author = ''Herbert'', isbn = None,
            description = None, coverImage = ''dune.png'', ownerId = ''alice'',
            createdAt = 1\<rparr>"

definition bob_rental :: rental where
  "bob_rental = \<lparr>rental_id = ''c'', bookId = ''c'', userId = ''bob'', rentedAt = 2,
                  returnedAt = None\<rparr>"

definition store_available :: store where
  "store_available = \<lparr>book_tbl = [dune], rental_tbl = []\<rparr>"

definition store_rented :: store where
  "store_rented = \<lparr>book_tbl = [dune], rental_tbl = [bob_rental]\<rparr>"

definition store_returned :: store where
  "store_returned = \<lparr>book_tbl = [dune], rental_tbl = [bob_rental\<lparr>returnedAt := Some 3\<rparr>]\<rparr>"

definition dune_rented :: book_json where
  "dune_rented = \<lparr>data = dune, rentals = [bob_rental], isAvailable = False,
                   currentRental = Some bob_rental\<rparr>"

definition dune_returned :: book_json where
  "dune_returned = \<lparr>data = dune, rentals = [bob_rental\<lparr>returnedAt := Some 3\<rparr>],
                     isAvailable = True, currentRental = None\<rparr>"

definition dune_free :: book_json where
  "dune_free = \<lparr>data = dune, rentals = [], isAvailable = True, currentRental = None\<rparr>"

section \<open>Basic facts\<close>

subsection \<open>Truthiness, identifiers, sorting, lookups\<close>

lemma falsy_simps [simp]: "falsy None" "falsy (Some u) = (u = [])"
  by (simp_all add: falsy_def)

lemma length_le_foldr_max:
  "i \<in> set ids \<Longrightarrow> length i \<le> foldr (\<lambda>i n. max (length i) n) ids 0"
  by (induction ids) auto

lemma fresh_id_notin: "fresh_id ids \<notin> set ids"
proof
  assume "fresh_id ids \<in> set ids"
  then have "length (fresh_id ids) \<le> foldr (\<lambda>i n. max (length i) n) ids 0"
    by (rule length_le_foldr_max)
  then show False by (simp add: fresh_id_def)
qed

lemma set_sort_desc [simp]: "set (sort_desc f xs) = set xs"
  by (simp add: sort_desc_def)

lemma is_active_rental_iff:
  "is_active_rental s bid r = (r \<in> set (rental_tbl s) \<and> bookId r = bid \<and> returnedAt r = None)"
  by (simp add: is_active_rental_def)

lemma active_rentals_set:
  "set (active_rentals bid s) = {r. is_active_rental s bid r}"
  by (auto simp: active_rentals_def is_active_rental_iff)

lemma active_rentals_Nil:
  "(active_rentals bid s = []) = (\<not> (\<exists>r. is_active_rental s bid r))"
  using active_rentals_set [of bid s] by (metis empty_Collect_eq set_empty mem_Collect_eq empty_iff)

lemma book_findUnique_None:
  "(book_findUnique bid s = None) = (bid \<notin> book_id ` set (book_tbl s))"
  by (auto simp: book_findUnique_def find_None_iff)

lemma book_findUnique_Some:
  "book_findUnique bid s = Some b \<Longrightarrow> b \<in> set (book_tbl s) \<and> book_id b = bid"
  by (auto simp: book_findUnique_def find_Some_iff)

lemma rental_findFirst_active_None:
  "(rental_findFirst_active bid s = None) = (\<not> (\<exists>r. is_active_rental s bid r))"
  by (auto simp: rental_findFirst_active_def find_None_iff is_active_rental_iff)

lemma rental_findFirst_active_Some:
  "rental_findFirst_active bid s = Some a \<Longrightarrow>
     is_active_rental s bid a \<and> (\<exists>i<length (rental_tbl s). rental_tbl s ! i = a)"
  by (auto simp: rental_findFirst_active_def find_Some_iff is_active_rental_iff)

lemma find_SomeD: "find P xs = Some x \<Longrightarrow> x \<in> set xs \<and> P x"
  by (induction xs) (auto split: if_splits)

lemma first_None_iff: "((case xs of [] \<Rightarrow> None | r # rs \<Rightarrow> Some r) = None) = (xs = [])"
  by (cases xs) simp_all

lemma first_SomeD: "(case xs of [] \<Rightarrow> None | r # rs \<Rightarrow> Some r) = Some x \<Longrightarrow> x \<in> set xs"
  by (cases xs) auto

lemma map_update_key:
  assumes "distinct (map f xs)" and "i < length xs"
  shows "map (\<lambda>x. if f x = f (xs ! i) then g x else x) xs = xs[i := g (xs ! i)]"
proof (rule nth_equalityI)
  show "length (map (\<lambda>x. if f x = f (xs ! i) then g x else x) xs) = length (xs[i := g (xs ! i)])"
    by simp
next
  fix j assume "j < length (map (\<lambda>x. if f x = f (xs ! i) then g x else x) xs)"
  then have j: "j < length xs" by simp
  have "f (xs ! j) = f (xs ! i) \<longleftrightarrow> j = i"
    using assms j nth_eq_iff_index_eq [of "map f xs" j i] by auto
  then show "map (\<lambda>x. if f x = f (xs ! i) then g x else x) xs ! j = xs[i := g (xs ! i)] ! j"
    using j assms(2) by (auto simp: nth_list_update)
qed

subsection \<open>The serialised book\<close>

lemma with_status_simps [simp]:
  "data (with_status (b, rs)) = b"
  "rentals (with_status (b, rs)) = rs"
  "isAvailable (with_status (b, rs)) = (rs = [])"
  "currentRental (with_status (b, rs)) = (case rs of [] \<Rightarrow> None | r # xs \<Rightarrow> Some r)"
  by (simp_all add: with_status_def)

lemma GET_books_elem:
  assumes "v \<in> set (GET_books available s)"
  shows "\<exists>b\<in>set (book_tbl s). v = with_status (b, active_rentals (book_id b) s)"
  using assms by (auto simp: GET_books_def Let_def split: if_splits)

lemma with_status_derived:
  assumes "v = with_status (b, active_rentals (book_id b) s)"
  shows "isAvailable v = (\<not> (\<exists>r. is_active_rental s (book_id (data v)) r))"
    and "(currentRental v = None) = (\<not> (\<exists>r. is_active_rental s (book_id (data v)) r))"
    and "currentRental v = Some r \<Longrightarrow> is_active_rental s (book_id (data v)) r"
proof -
  show "isAvailable v = (\<not> (\<exists>r. is_active_rental s (book_id (data v)) r))"
    using assms by (simp add: active_rentals_Nil)
  show "(currentRental v = None) = (\<not> (\<exists>r. is_active_rental s (book_id (data v)) r))"
    using assms active_rentals_Nil [of "book_id b" s] by (simp add: first_None_iff)
  show "currentRental v = Some r \<Longrightarrow> is_active_rental s (book_id (data v)) r"
    using assms active_rentals_set [of "book_id b" s] first_SomeD [of "active_rentals (book_id b) s" r]
    by auto
qed

lemma GET_book_derived:
  assumes "GET_book bid s = Inr v"
  shows "book_id (data v) = bid"
    and "isAvailable v = (\<not> (\<exists>r. is_active_rental s bid r))"
    and "(currentRental v = None) = (\<not> (\<exists>r. is_active_rental s bid r))"
    and "currentRental v = Some r \<Longrightarrow> is_active_rental s bid r"
proof -
  obtain b where b: "book_findUnique bid s = Some b"
    using assms by (auto simp: GET_book_def split: option.splits)
  let ?rs = "sort_desc rentedAt (filter (\<lambda>r. bookId r = bid) (rental_tbl s))"
  have v: "v = \<lparr>data = b, rentals = ?rs,
                isAvailable = (find (\<lambda>r. returnedAt r = None) ?rs = None),
                currentRental = find (\<lambda>r. returnedAt r = None) ?rs\<rparr>"
    using assms b by (simp add: GET_book_def Let_def)
  show "book_id (data v) = bid" using v book_findUnique_Some [OF b] by simp
  have none: "(find (\<lambda>r. returnedAt r = None) ?rs = None) = (\<not> (\<exists>r. is_active_rental s bid r))"
    by (auto simp: find_None_iff is_active_rental_iff)
  show "isAvailable v = (\<not> (\<exists>r. is_active_rental s bid r))" using v none by simp
  show "(currentRental v = None) = (\<not> (\<exists>r. is_active_rental s bid r))" using v none by simp
  show "currentRental v = Some r \<Longrightarrow> is_active_rental s bid r"
  proof -
    assume "currentRental v = Some r"
    then have "find (\<lambda>r. returnedAt r = None) ?rs = Some r" using v by simp
    then have "r \<in> set ?rs \<and> returnedAt r = None"
      by (rule find_SomeD)
    then show ?thesis by (simp add: is_active_rental_iff)
  qed
qed

lemma map_data_with_status:
  "map data (map with_status (filter P (map (\<lambda>b. (b, f b)) xs))) = filter (\<lambda>b. P (b, f b)) xs"
  by (induction xs) auto

subsection \<open>What a request does to the Rental table\<close>

text \<open>
  The identifiers of the Rental table stay pairwise distinct (the primary key), and no
  request raises the number of active rentals of a book above one. Both hold in every
  store reached from the empty one.
\<close>

lemma book_create_rental_tbl:
  "book_create b owner now s = Some created \<Longrightarrow> rental_tbl (snd created) = rental_tbl s"
  by (auto simp: book_create_def Let_def split: option.splits)

lemma POST_books_rental_tbl: "rental_tbl (snd (POST_books session body now s)) = rental_tbl s"
  by (auto simp: POST_books_def book_create_rental_tbl split: option.splits)

lemma inj_on_rental_id:
  assumes "distinct (map rental_id xs)" and "x \<in> set xs" and "y \<in> set xs"
    and "rental_id x = rental_id y"
  shows "x = y"
  using assms by (meson distinct_map inj_on_def)

lemma rental_id_update:
  "rental_id \<circ> (\<lambda>r. if P r then r\<lparr>returnedAt := t\<rparr> else r) = rental_id"
  by (rule ext) simp

lemma step_rental_ids_distinct:
  assumes "distinct (map rental_id (rental_tbl s))"
  shows "distinct (map rental_id (rental_tbl (step s req)))"
proof (cases req)
  case (CreateBook session body now)
  then show ?thesis using assms
    by (simp add: POST_books_rental_tbl)
next
  case (DeleteBook session bid)
  then show ?thesis using assms
    by (auto simp: DELETE_book_def book_delete_def rental_deleteMany_def distinct_map_filter
        split: option.splits)
next
  case (RentBook session bid now)
  have "fresh_id (map rental_id (rental_tbl s)) \<notin> rental_id ` set (rental_tbl s)"
    using fresh_id_notin [of "map rental_id (rental_tbl s)"] by simp
  then show ?thesis using assms RentBook
    by (auto simp: POST_rent_def Let_def split: option.splits)
next
  case (ReturnBook session bid now)
  then show ?thesis using assms
    by (auto simp: DELETE_rent_def rental_update_returnedAt_def rental_id_update
        split: option.splits)
qed

lemma step_same_id:
  assumes d: "distinct (map rental_id (rental_tbl s))"
    and r: "r \<in> set (rental_tbl s)" and c: "returnedAt r \<noteq> None"
    and r': "r' \<in> set (rental_tbl (step s req))" and e: "rental_id r' = rental_id r"
  shows "r' = r"
proof (cases req)
  case (CreateBook session body now)
  then have "r' \<in> set (rental_tbl s)" using r'
    by (simp add: POST_books_rental_tbl)
  then show ?thesis using d r e inj_on_rental_id by blast
next
  case (DeleteBook session bid)
  then have "r' \<in> set (rental_tbl s)" using r'
    by (auto simp: DELETE_book_def book_delete_def rental_deleteMany_def
        split: option.splits if_splits)
  then show ?thesis using d r e inj_on_rental_id by blast
next
  case (RentBook session bid now)
  have "fresh_id (map rental_id (rental_tbl s)) \<notin> rental_id ` set (rental_tbl s)"
    using fresh_id_notin [of "map rental_id (rental_tbl s)"] by simp
  then have "r' \<in> set (rental_tbl s)" using r' e r RentBook
    by (auto simp: POST_rent_def Let_def split: option.splits if_splits)
  then show ?thesis using d r e inj_on_rental_id by blast
next
  case (ReturnBook session bid now)
  show ?thesis
  proof (cases "rental_tbl (step s req) = rental_tbl s")
    case True
    then show ?thesis using d r r' e inj_on_rental_id by metis
  next
    case False
    then obtain a where a: "rental_findFirst_active bid s = Some a"
      and t: "rental_tbl (step s req) =
        map (\<lambda>x. if rental_id x = rental_id a then x\<lparr>returnedAt := Some now\<rparr> else x) (rental_tbl s)"
      using ReturnBook
      by (auto simp: DELETE_rent_def rental_update_returnedAt_def split: option.splits if_splits)
    have act: "a \<in> set (rental_tbl s) \<and> returnedAt a = None"
      using rental_findFirst_active_Some [OF a] by (simp add: is_active_rental_iff)
    have ne: "rental_id r \<noteq> rental_id a"
      using d r act c inj_on_rental_id by metis
    obtain x where x: "x \<in> set (rental_tbl s)"
      and r'x: "r' = (if rental_id x = rental_id a then x\<lparr>returnedAt := Some now\<rparr> else x)"
      using r' t by auto
    have "rental_id x = rental_id r" using r'x e by (auto split: if_splits)
    then have "x = r" using d x r inj_on_rental_id by blast
    then show ?thesis using r'x ne by simp
  qed
qed

lemma step_keeps_closed:
  assumes d: "distinct (map rental_id (rental_tbl s))"
    and r: "r \<in> set (rental_tbl s)" and c: "returnedAt r \<noteq> None"
    and n: "\<forall>session. req \<noteq> DeleteBook session (bookId r)"
  shows "r \<in> set (rental_tbl (step s req))"
proof (cases req)
  case (CreateBook session body now)
  then show ?thesis using r
    by (simp add: POST_books_rental_tbl)
next
  case (DeleteBook session bid)
  then have "bid \<noteq> bookId r" using n by auto
  then show ?thesis using r DeleteBook
    by (auto simp: DELETE_book_def book_delete_def rental_deleteMany_def split: option.splits)
next
  case (RentBook session bid now)
  then show ?thesis using r
    by (auto simp: POST_rent_def Let_def split: option.splits)
next
  case (ReturnBook session bid now)
  show ?thesis
  proof (cases "rental_tbl (step s req) = rental_tbl s")
    case True
    then show ?thesis using r by simp
  next
    case False
    then obtain a where a: "rental_findFirst_active bid s = Some a"
      and t: "rental_tbl (step s req) =
        map (\<lambda>x. if rental_id x = rental_id a then x\<lparr>returnedAt := Some now\<rparr> else x) (rental_tbl s)"
      using ReturnBook
      by (auto simp: DELETE_rent_def rental_update_returnedAt_def split: option.splits if_splits)
    have act: "a \<in> set (rental_tbl s) \<and> returnedAt a = None"
      using rental_findFirst_active_Some [OF a] by (simp add: is_active_rental_iff)
    have ne: "rental_id r \<noteq> rental_id a"
      using d r act c inj_on_rental_id by metis
    have "(if rental_id r = rental_id a then r\<lparr>returnedAt := Some now\<rparr> else r)
            \<in> set (rental_tbl (step s req))"
      unfolding t using r by (simp only: set_map) (rule imageI)
    then show ?thesis using ne by simp
  qed
qed

lemma run_keeps_closed:
  assumes "distinct (map rental_id (rental_tbl s))"
    and "r \<in> set (rental_tbl s)" and "returnedAt r \<noteq> None"
    and "\<forall>req\<in>set reqs. \<forall>session. req \<noteq> DeleteBook session (bookId r)"
  shows "r \<in> set (rental_tbl (run s reqs))"
  using assms
proof (induction reqs arbitrary: s)
  case Nil
  then show ?case by (simp add: run_def)
next
  case (Cons req reqs)
  have "r \<in> set (rental_tbl (step s req))"
    using Cons.prems by (intro step_keeps_closed) auto
  moreover have "distinct (map rental_id (rental_tbl (step s req)))"
    using Cons.prems(1) by (rule step_rental_ids_distinct)
  ultimately have "r \<in> set (rental_tbl (run (step s req) reqs))"
    using Cons.prems by (intro Cons.IH) auto
  then show ?case by (simp add: run_def)
qed

lemma length_filter_map_le:
  assumes "\<And>x. P (f x) \<Longrightarrow> P x"
  shows "length (filter P (map f xs)) \<le> length (filter P xs)"
  using assms by (induction xs) auto

lemma length_filter_filter_le: "length (filter P (filter Q xs)) \<le> length (filter P xs)"
  by (induction xs) auto

lemma DELETE_book_rental_tbl:
  "rental_tbl (snd (DELETE_book session b0 s)) = rental_tbl s
 \<or> rental_tbl (snd (DELETE_book session b0 s)) = filter (\<lambda>r. bookId r \<noteq> b0) (rental_tbl s)"
  by (simp add: DELETE_book_def book_delete_def rental_deleteMany_def split: option.splits)

lemma DELETE_book_active_le:
  "length (active_rentals bid (snd (DELETE_book session b0 s))) \<le> length (active_rentals bid s)"
  using DELETE_book_rental_tbl [of session b0 s]
proof
  assume "rental_tbl (snd (DELETE_book session b0 s)) = rental_tbl s"
  then show ?thesis by (simp add: active_rentals_def)
next
  assume "rental_tbl (snd (DELETE_book session b0 s)) = filter (\<lambda>r. bookId r \<noteq> b0) (rental_tbl s)"
  then show ?thesis
    unfolding active_rentals_def by (simp only: length_filter_filter_le)
qed

lemma POST_rent_rental_tbl:
  "rental_tbl (snd (POST_rent session b0 now s)) = rental_tbl s
 \<or> (active_rentals b0 s = [] \<and>
     (\<exists>r. bookId r = b0 \<and> rental_tbl (snd (POST_rent session b0 now s)) = rental_tbl s @ [r]))"
  by (simp add: POST_rent_def Let_def split: option.splits)

lemma POST_rent_active_le:
  assumes "length (active_rentals bid s) \<le> 1"
  shows "length (active_rentals bid (snd (POST_rent session b0 now s))) \<le> 1"
  using POST_rent_rental_tbl [of session b0 now s]
proof
  assume "rental_tbl (snd (POST_rent session b0 now s)) = rental_tbl s"
  then show ?thesis using assms by (simp add: active_rentals_def)
next
  assume "active_rentals b0 s = [] \<and>
     (\<exists>r. bookId r = b0 \<and> rental_tbl (snd (POST_rent session b0 now s)) = rental_tbl s @ [r])"
  then obtain r where e: "active_rentals b0 s = []" and b: "bookId r = b0"
    and t: "rental_tbl (snd (POST_rent session b0 now s)) = rental_tbl s @ [r]"
    by blast
  show ?thesis
  proof (cases "bid = b0")
    case True
    have "filter (\<lambda>r. bookId r = b0 \<and> returnedAt r = None) (rental_tbl s) = []"
      using e by (simp add: active_rentals_def)
    then show ?thesis using True t by (simp add: active_rentals_def)
  next
    case False
    then have "active_rentals bid (snd (POST_rent session b0 now s)) = active_rentals bid s"
      using t b by (simp add: active_rentals_def)
    then show ?thesis using assms by simp
  qed
qed

lemma DELETE_rent_rental_tbl:
  "rental_tbl (snd (DELETE_rent session b0 now s)) = rental_tbl s
 \<or> (\<exists>rid. rental_tbl (snd (DELETE_rent session b0 now s)) =
       map (\<lambda>r. if rental_id r = rid then r\<lparr>returnedAt := Some now\<rparr> else r) (rental_tbl s))"
  by (simp add: DELETE_rent_def rental_update_returnedAt_def split: option.splits) blast

lemma DELETE_rent_active_le:
  "length (active_rentals bid (snd (DELETE_rent session b0 now s))) \<le> length (active_rentals bid s)"
  using DELETE_rent_rental_tbl [of session b0 now s]
proof
  assume "rental_tbl (snd (DELETE_rent session b0 now s)) = rental_tbl s"
  then show ?thesis by (simp add: active_rentals_def)
next
  assume "\<exists>rid. rental_tbl (snd (DELETE_rent session b0 now s)) =
       map (\<lambda>r. if rental_id r = rid then r\<lparr>returnedAt := Some now\<rparr> else r) (rental_tbl s)"
  then obtain rid where t: "rental_tbl (snd (DELETE_rent session b0 now s)) =
       map (\<lambda>r. if rental_id r = rid then r\<lparr>returnedAt := Some now\<rparr> else r) (rental_tbl s)"
    by blast
  have "length (filter (\<lambda>r. bookId r = bid \<and> returnedAt r = None)
          (map (\<lambda>r. if rental_id r = rid then r\<lparr>returnedAt := Some now\<rparr> else r) (rental_tbl s)))
        \<le> length (filter (\<lambda>r. bookId r = bid \<and> returnedAt r = None) (rental_tbl s))"
    by (rule length_filter_map_le) (simp split: if_splits)
  then show ?thesis by (simp add: active_rentals_def t)
qed

lemma step_single_active:
  assumes "\<And>b. length (active_rentals b s) \<le> 1"
  shows "length (active_rentals bid (step s req)) \<le> 1"
proof (cases req)
  case (CreateBook session body now)
  then show ?thesis
    using assms [of bid] by (simp add: active_rentals_def POST_books_rental_tbl)
next
  case (DeleteBook session b0)
  then show ?thesis
    using assms [of bid] DELETE_book_active_le [of bid session b0 s] by simp
next
  case (RentBook session b0 now)
  then show ?thesis
    using POST_rent_active_le [OF assms [of bid], of session b0 now] by simp
next
  case (ReturnBook session b0 now)
  then show ?thesis
    using assms [of bid] DELETE_rent_active_le [of bid session b0 now s] by simp
qed

lemma run_single_active:
  assumes "\<And>b. length (active_rentals b s) \<le> 1"
  shows "length (active_rentals bid (run s reqs)) \<le> 1"
  using assms
proof (induction reqs arbitrary: s bid)
  case Nil
  then show ?case by (simp add: run_def)
next
  case (Cons req reqs)
  have "length (active_rentals bid (run (step s req) reqs)) \<le> 1"
    using Cons.prems by (intro Cons.IH step_single_active)
  then show ?case by (simp add: run_def)
qed

lemma run_rental_ids_distinct:
  assumes "distinct (map rental_id (rental_tbl s))"
  shows "distinct (map rental_id (rental_tbl (run s reqs)))"
  using assms
proof (induction reqs arbitrary: s)
  case Nil
  then show ?case by (simp add: run_def)
next
  case (Cons req reqs)
  have "distinct (map rental_id (rental_tbl (run (step s req) reqs)))"
    using Cons.prems by (intro Cons.IH step_rental_ids_distinct)
  then show ?case by (simp add: run_def)
qed

lemma reachable_active_unique:
  assumes "is_active_rental (run empty_store reqs) bid r"
    and "is_active_rental (run empty_store reqs) bid r'"
  shows "r' = r"
proof -
  have "length (active_rentals bid (run empty_store reqs)) \<le> 1"
    by (rule run_single_active) (simp add: active_rentals_def empty_store_def)
  moreover have "r \<in> set (active_rentals bid (run empty_store reqs))"
    and "r' \<in> set (active_rentals bid (run empty_store reqs))"
    using assms by (simp_all add: active_rentals_set)
  ultimately show ?thesis
    by (cases "active_rentals bid (run empty_store reqs)") auto
qed

lemma reachable_rental_ids_distinct:
  "distinct (map rental_id (rental_tbl (run empty_store reqs)))"
  by (rule run_rental_ids_distinct) (simp add: empty_store_def)

subsection \<open>The example stores\<close>

text \<open>The three example stores are reached from the empty store by requests.\<close>

lemmas example_defs =
  store_available_def store_rented_def store_returned_def dune_def bob_rental_def
  dune_body_def dune_rented_def dune_free_def empty_store_def
  numeric_title_body_def numeric_isbn_body_def

lemma store_available_reachable:
  "run empty_store [CreateBook (Some ''alice'') (Some dune_body) 1] = store_available"
  by (simp add: run_def empty_store_def POST_books_def book_create_def dune_body_def fresh_id_def
      store_available_def dune_def Let_def)

lemma store_rented_reachable:
  "run store_available [RentBook (Some ''bob'') ''c'' 2] = store_rented"
  by (simp add: run_def POST_rent_def book_findUnique_def active_rentals_def fresh_id_def
      store_available_def store_rented_def dune_def bob_rental_def Let_def)

lemma store_returned_reachable:
  "run store_rented [ReturnBook (Some ''bob'') ''c'' 3] = store_returned"
  by (simp add: run_def DELETE_rent_def rental_findFirst_active_def
      rental_update_returnedAt_def store_rented_def store_returned_def bob_rental_def)

lemma GET_books_store_rented: "GET_books None store_rented = [dune_rented]"
  by (simp add: GET_books_def store_rented_def sort_desc_def active_rentals_def
      with_status_def dune_def bob_rental_def dune_rented_def Let_def)

lemma GET_books_store_returned:
  "GET_books None store_returned =
     [\<lparr>data = dune, rentals = [], isAvailable = True, currentRental = None\<rparr>]"
  by (simp add: GET_books_def store_returned_def sort_desc_def active_rentals_def
      with_status_def dune_def bob_rental_def Let_def)

lemma GET_book_store_rented: "GET_book ''c'' store_rented = Inr dune_rented"
  by (simp add: GET_book_def book_findUnique_def store_rented_def sort_desc_def
      dune_def bob_rental_def dune_rented_def Let_def)

lemma GET_book_store_returned: "GET_book ''c'' store_returned = Inr dune_returned"
  by (simp add: GET_book_def book_findUnique_def store_returned_def sort_desc_def
      dune_def bob_rental_def dune_returned_def Let_def)

lemma active_store_rented: "is_active_rental store_rented ''c'' bob_rental"
  by (simp add: is_active_rental_def store_rented_def bob_rental_def)

lemma no_active_store_returned: "\<not> (\<exists>r. is_active_rental store_returned ''c'' r)"
  by (simp add: is_active_rental_def store_returned_def bob_rental_def)

section \<open>Derived availability (C1)\<close>

text \<open>
  C1. For every book serialised by the list handler (whatever the filter) and by the
  single-book handler, \<open>isAvailable\<close> is true exactly when the Rental table has no row
  for the book with a null \<open>returnedAt\<close>; \<open>currentRental\<close> is null exactly in that case,
  it is always an active rental of the book, and it is the active rental of the book when
  there is only one. By \<open>reachable_active_unique\<close> there is never more than one in a store
  reached from the empty store.
\<close>

theorem derived_availability:
  "(\<forall>v\<in>set (GET_books available s).
      isAvailable v = (\<not> (\<exists>r. is_active_rental s (book_id (data v)) r))
    \<and> (currentRental v = None) = (\<not> (\<exists>r. is_active_rental s (book_id (data v)) r))
    \<and> (\<forall>r. currentRental v = Some r \<longrightarrow> is_active_rental s (book_id (data v)) r)
    \<and> (\<forall>r. is_active_rental s (book_id (data v)) r
            \<and> (\<forall>r'. is_active_rental s (book_id (data v)) r' \<longrightarrow> r' = r)
          \<longrightarrow> currentRental v = Some r))
 \<and> (\<forall>v. GET_book bid s = Inr v \<longrightarrow>
      isAvailable v = (\<not> (\<exists>r. is_active_rental s (book_id (data v)) r))
    \<and> (currentRental v = None) = (\<not> (\<exists>r. is_active_rental s (book_id (data v)) r))
    \<and> (\<forall>r. currentRental v = Some r \<longrightarrow> is_active_rental s (book_id (data v)) r)
    \<and> (\<forall>r. is_active_rental s (book_id (data v)) r
            \<and> (\<forall>r'. is_active_rental s (book_id (data v)) r' \<longrightarrow> r' = r)
          \<longrightarrow> currentRental v = Some r))"
proof (intro conjI ballI allI impI)
  fix v assume "v \<in> set (GET_books available s)"
  then obtain b where v: "v = with_status (b, active_rentals (book_id b) s)"
    using GET_books_elem by blast
  note d = with_status_derived [OF v]
  show "isAvailable v = (\<not> (\<exists>r. is_active_rental s (book_id (data v)) r))" by (rule d(1))
  show n: "(currentRental v = None) = (\<not> (\<exists>r. is_active_rental s (book_id (data v)) r))"
    by (rule d(2))
  { fix r assume "currentRental v = Some r"
    then show "is_active_rental s (book_id (data v)) r" by (rule d(3)) }
  { fix r assume u: "is_active_rental s (book_id (data v)) r
        \<and> (\<forall>r'. is_active_rental s (book_id (data v)) r' \<longrightarrow> r' = r)"
    then obtain r' where r': "currentRental v = Some r'" using n by (cases "currentRental v") auto
    then have "is_active_rental s (book_id (data v)) r'" by (rule d(3))
    then show "currentRental v = Some r" using u r' by simp }
next
  fix v assume g: "GET_book bid s = Inr v"
  note d = GET_book_derived [OF g]
  show "isAvailable v = (\<not> (\<exists>r. is_active_rental s (book_id (data v)) r))"
    using d(1,2) by simp
  show n: "(currentRental v = None) = (\<not> (\<exists>r. is_active_rental s (book_id (data v)) r))"
    using d(1,3) by simp
  { fix r assume "currentRental v = Some r"
    then show "is_active_rental s (book_id (data v)) r" using d(1,4) by simp }
  { fix r assume u: "is_active_rental s (book_id (data v)) r
        \<and> (\<forall>r'. is_active_rental s (book_id (data v)) r' \<longrightarrow> r' = r)"
    then obtain r' where r': "currentRental v = Some r'" using n by (cases "currentRental v") auto
    then have "is_active_rental s (book_id (data v)) r'" using d(1,4) by simp
    then show "currentRental v = Some r" using u r' by simp }
qed

theorem derived_availability_witness:
  "dune_rented \<in> set (GET_books None store_rented)
 \<and> GET_book ''c'' store_rented = Inr dune_rented
 \<and> is_active_rental store_rented ''c'' bob_rental
 \<and> isAvailable dune_rented = False
 \<and> currentRental dune_rented = Some bob_rental
 \<and> GET_book ''c'' store_returned = Inr dune_returned
 \<and> \<not> (\<exists>r. is_active_rental store_returned ''c'' r)
 \<and> isAvailable dune_returned = True
 \<and> currentRental dune_returned = None"
proof -
  have m: "dune_rented \<in> set (GET_books None store_rented)"
    by (simp add: GET_books_store_rented)
  have c: "book_id (data dune_rented) = ''c''" "book_id (data dune_returned) = ''c''"
    by (simp_all add: dune_rented_def dune_returned_def dune_def)
  have "isAvailable dune_rented =
      (\<not> (\<exists>r. is_active_rental store_rented (book_id (data dune_rented)) r))"
    using derived_availability [of None store_rented "''c''"] m by blast
  then have a: "isAvailable dune_rented = False"
    using active_store_rented c by auto
  have u: "\<forall>r'. is_active_rental store_rented ''c'' r' \<longrightarrow> r' = bob_rental"
    by (auto simp: is_active_rental_def store_rented_def)
  have "\<forall>r. is_active_rental store_rented (book_id (data dune_rented)) r
          \<and> (\<forall>r'. is_active_rental store_rented (book_id (data dune_rented)) r' \<longrightarrow> r' = r)
        \<longrightarrow> currentRental dune_rented = Some r"
    using derived_availability [of None store_rented "''c''"] GET_book_store_rented by blast
  then have cr: "currentRental dune_rented = Some bob_rental"
    using active_store_rented u c by auto
  have "isAvailable dune_returned =
      (\<not> (\<exists>r. is_active_rental store_returned (book_id (data dune_returned)) r))"
    and "(currentRental dune_returned = None) =
      (\<not> (\<exists>r. is_active_rental store_returned (book_id (data dune_returned)) r))"
    using derived_availability [of None store_returned "''c''"] GET_book_store_returned
    by blast+
  then have b: "isAvailable dune_returned = True" "currentRental dune_returned = None"
    using no_active_store_returned c by auto
  show ?thesis
    using m GET_book_store_rented active_store_rented a cr GET_book_store_returned
      no_active_store_returned b
    by simp
qed

section \<open>Renting (C2)\<close>

text \<open>
  C2. For an authenticated caller, \<open>POST /api/books/[id]/rent\<close> answers NotFound when
  no book has the identifier; answers Conflict (status 400, "Book is already rented")
  when the book exists and has a rental with null \<open>returnedAt\<close>, whoever the caller is,
  and leaves the store as it was; and otherwise appends exactly one Rental row, with a
  new identifier, for this book and this caller, \<open>rentedAt = now\<close> and
  \<open>returnedAt = null\<close>.
\<close>

theorem POST_rent_cases:
  assumes "session = Some uid" and "uid \<noteq> []"
  shows "(bid \<notin> book_id ` set (book_tbl s) \<longrightarrow>
            POST_rent session bid now s = (Inl (NotFound ''Book not found''), s))
       \<and> (bid \<in> book_id ` set (book_tbl s) \<and> (\<exists>r. is_active_rental s bid r) \<longrightarrow>
            POST_rent session bid now s = (Inl (Conflict ''Book is already rented''), s))
       \<and> (bid \<in> book_id ` set (book_tbl s) \<and> \<not> (\<exists>r. is_active_rental s bid r) \<longrightarrow>
            (\<exists>r. POST_rent session bid now s = (Inr r, s\<lparr>rental_tbl := rental_tbl s @ [r]\<rparr>)
               \<and> rental_id r \<notin> rental_id ` set (rental_tbl s)
               \<and> bookId r = bid \<and> userId r = uid \<and> rentedAt r = now \<and> returnedAt r = None))"
proof -
  have fresh: "fresh_id (map rental_id (rental_tbl s)) \<notin> rental_id ` set (rental_tbl s)"
    using fresh_id_notin [of "map rental_id (rental_tbl s)"] by simp
  show ?thesis
    using assms fresh active_rentals_Nil [of bid s] book_findUnique_None [of bid s]
    by (auto simp: POST_rent_def Let_def split: option.splits)
qed

theorem POST_rent_cases_witness:
  "''bob'' \<noteq> []
 \<and> ''zz'' \<notin> book_id ` set (book_tbl store_available)
 \<and> POST_rent (Some ''bob'') ''zz'' 2 store_available =
     (Inl (NotFound ''Book not found''), store_available)
 \<and> ''c'' \<in> book_id ` set (book_tbl store_rented)
 \<and> is_active_rental store_rented ''c'' bob_rental
 \<and> POST_rent (Some ''alice'') ''c'' 9 store_rented =
     (Inl (Conflict ''Book is already rented''), store_rented)
 \<and> POST_rent (Some ''bob'') ''c'' 9 store_rented =
     (Inl (Conflict ''Book is already rented''), store_rented)
 \<and> \<not> (\<exists>r. is_active_rental store_available ''c'' r)
 \<and> POST_rent (Some ''bob'') ''c'' 2 store_available = (Inr bob_rental, store_rented)"
  using POST_rent_cases [of "Some ''bob''" "''bob''" "''zz''" store_available 2]
    POST_rent_cases [of "Some ''alice''" "''alice''" "''c''" store_rented 9]
    POST_rent_cases [of "Some ''bob''" "''bob''" "''c''" store_rented 9]
    POST_rent_cases [of "Some ''bob''" "''bob''" "''c''" store_available 2]
  by (simp add: example_defs POST_rent_def book_findUnique_def active_rentals_def fresh_id_def
      is_active_rental_def Let_def)

section \<open>Returning (C3)\<close>

text \<open>
  C3. For an authenticated caller, \<open>DELETE /api/books/[id]/rent\<close> answers NotFound
  when the book has no rental with null \<open>returnedAt\<close>; answers Forbidden and leaves the
  store unchanged when the active rental found (\<open>findFirst\<close>) belongs to another user;
  and otherwise sets \<open>returnedAt = now\<close> on that row and on no other: the table after
  the request is the table before with the one position of the active rental replaced.
  The last part reads the primary key of the Rental table (distinct identifiers), which
  holds in every reachable store (\<open>reachable_rental_ids_distinct\<close>).
\<close>

theorem DELETE_rent_cases:
  assumes "session = Some uid" and "uid \<noteq> []"
  shows "(\<not> (\<exists>r. is_active_rental s bid r) \<longrightarrow>
            DELETE_rent session bid now s =
              (Inl (NotFound ''No active rental found for this book''), s))
       \<and> (\<forall>a. rental_findFirst_active bid s = Some a \<and> userId a \<noteq> uid \<longrightarrow>
            DELETE_rent session bid now s =
              (Inl (Forbidden ''You can only return books you have rented''), s))
       \<and> (\<forall>a. rental_findFirst_active bid s = Some a \<and> userId a = uid
                \<and> distinct (map rental_id (rental_tbl s)) \<longrightarrow>
            (\<exists>i<length (rental_tbl s). rental_tbl s ! i = a \<and>
               DELETE_rent session bid now s =
                 (Inr (a\<lparr>returnedAt := Some now\<rparr>),
                  s\<lparr>rental_tbl := (rental_tbl s)[i := a\<lparr>returnedAt := Some now\<rparr>]\<rparr>)))"
proof (intro conjI allI impI)
  assume "\<not> (\<exists>r. is_active_rental s bid r)"
  then have "rental_findFirst_active bid s = None"
    by (simp add: rental_findFirst_active_None)
  then show "DELETE_rent session bid now s =
      (Inl (NotFound ''No active rental found for this book''), s)"
    using assms by (simp add: DELETE_rent_def)
next
  fix a assume "rental_findFirst_active bid s = Some a \<and> userId a \<noteq> uid"
  then show "DELETE_rent session bid now s =
      (Inl (Forbidden ''You can only return books you have rented''), s)"
    using assms by (simp add: DELETE_rent_def)
next
  fix a
  assume h: "rental_findFirst_active bid s = Some a \<and> userId a = uid
     \<and> distinct (map rental_id (rental_tbl s))"
  then obtain i where i: "i < length (rental_tbl s)" "rental_tbl s ! i = a"
    using rental_findFirst_active_Some by blast
  have "map (\<lambda>r. if rental_id r = rental_id (rental_tbl s ! i) then r\<lparr>returnedAt := Some now\<rparr> else r)
          (rental_tbl s) = (rental_tbl s)[i := (rental_tbl s ! i)\<lparr>returnedAt := Some now\<rparr>]"
    using h i(1) by (intro map_update_key) auto
  then have "DELETE_rent session bid now s =
      (Inr (a\<lparr>returnedAt := Some now\<rparr>),
       s\<lparr>rental_tbl := (rental_tbl s)[i := a\<lparr>returnedAt := Some now\<rparr>]\<rparr>)"
    using assms h i by (simp add: DELETE_rent_def rental_update_returnedAt_def)
  with i show "\<exists>i<length (rental_tbl s). rental_tbl s ! i = a \<and>
      DELETE_rent session bid now s =
        (Inr (a\<lparr>returnedAt := Some now\<rparr>),
         s\<lparr>rental_tbl := (rental_tbl s)[i := a\<lparr>returnedAt := Some now\<rparr>]\<rparr>)"
    by blast
qed

theorem DELETE_rent_cases_witness:
  "''bob'' \<noteq> []
 \<and> \<not> (\<exists>r. is_active_rental store_available ''c'' r)
 \<and> DELETE_rent (Some ''bob'') ''c'' 3 store_available =
     (Inl (NotFound ''No active rental found for this book''), store_available)
 \<and> rental_findFirst_active ''c'' store_rented = Some bob_rental
 \<and> userId bob_rental \<noteq> ''alice''
 \<and> DELETE_rent (Some ''alice'') ''c'' 3 store_rented =
     (Inl (Forbidden ''You can only return books you have rented''), store_rented)
 \<and> distinct (map rental_id (rental_tbl store_rented))
 \<and> DELETE_rent (Some ''bob'') ''c'' 3 store_rented =
     (Inr (bob_rental\<lparr>returnedAt := Some 3\<rparr>), store_returned)"
  using DELETE_rent_cases [of "Some ''bob''" "''bob''" store_available "''c''" 3]
    DELETE_rent_cases [of "Some ''alice''" "''alice''" store_rented "''c''" 3]
    DELETE_rent_cases [of "Some ''bob''" "''bob''" store_rented "''c''" 3]
  by (simp add: example_defs DELETE_rent_def rental_findFirst_active_def
      rental_update_returnedAt_def is_active_rental_def)

section \<open>Deleting a book (C4)\<close>

text \<open>
  C4. For an authenticated caller, \<open>DELETE /api/books/[id]\<close> answers NotFound when the
  book is absent and Forbidden when the caller is not its owner, and deletes nothing in
  both cases. For the owner it first deletes every rental that references the book (the
  book is still in its table at that point), then the book: afterwards the Rental table
  is the former one without the rentals of the book, the Book table the former one
  without the book, and no rental references the book.
\<close>

theorem DELETE_book_cases:
  assumes "session = Some uid" and "uid \<noteq> []"
  shows "(bid \<notin> book_id ` set (book_tbl s) \<longrightarrow>
            DELETE_book session bid s = (Inl (NotFound ''Book not found''), s))
       \<and> (\<forall>b. book_findUnique bid s = Some b \<and> ownerId b \<noteq> uid \<longrightarrow>
            DELETE_book session bid s =
              (Inl (Forbidden ''Only the owner can delete this book''), s))
       \<and> (\<forall>b. book_findUnique bid s = Some b \<and> ownerId b = uid \<longrightarrow>
            DELETE_book session bid s = (Inr True, book_delete bid (rental_deleteMany bid s))
          \<and> rental_tbl (rental_deleteMany bid s) = filter (\<lambda>r. bookId r \<noteq> bid) (rental_tbl s)
          \<and> book_tbl (rental_deleteMany bid s) = book_tbl s
          \<and> rental_tbl (snd (DELETE_book session bid s)) =
              filter (\<lambda>r. bookId r \<noteq> bid) (rental_tbl s)
          \<and> book_tbl (snd (DELETE_book session bid s)) =
              filter (\<lambda>b. book_id b \<noteq> bid) (book_tbl s)
          \<and> \<not> (\<exists>r\<in>set (rental_tbl (snd (DELETE_book session bid s))). bookId r = bid))"
  using assms book_findUnique_None [of bid s]
  by (auto simp: DELETE_book_def book_delete_def rental_deleteMany_def)

theorem DELETE_book_cases_witness:
  "''alice'' \<noteq> []
 \<and> ''zz'' \<notin> book_id ` set (book_tbl store_returned)
 \<and> DELETE_book (Some ''alice'') ''zz'' store_returned =
     (Inl (NotFound ''Book not found''), store_returned)
 \<and> book_findUnique ''c'' store_returned = Some dune
 \<and> ownerId dune \<noteq> ''bob''
 \<and> DELETE_book (Some ''bob'') ''c'' store_returned =
     (Inl (Forbidden ''Only the owner can delete this book''), store_returned)
 \<and> ownerId dune = ''alice''
 \<and> DELETE_book (Some ''alice'') ''c'' store_returned = (Inr True, empty_store)"
  using DELETE_book_cases [of "Some ''alice''" "''alice''" "''zz''" store_returned]
    DELETE_book_cases [of "Some ''bob''" "''bob''" "''c''" store_returned]
    DELETE_book_cases [of "Some ''alice''" "''alice''" "''c''" store_returned]
  by (simp add: example_defs DELETE_book_def book_findUnique_def book_delete_def
      rental_deleteMany_def)

section \<open>The "my rentals" projection (C5)\<close>

text \<open>
  C5. The projection is computed from the answer of \<open>GET /api/books\<close>, whose \<open>rentals\<close>
  include is restricted to \<open>returnedAt: null\<close>, so a returned rental never reaches it.
  In the store reached when alice creates a book and bob rents and returns it, the
  Rental table holds bob's returned rental and \<open>GET /api/rentals/my\<close> answers it, but the
  projection \<open>fetchData\<close> computes for bob is empty: it does not contain bob's past
  rental.
\<close>

theorem my_rentals_drops_history:
  "run empty_store
     [CreateBook (Some ''alice'') (Some dune_body) 1,
      RentBook (Some ''bob'') ''c'' 2,
      ReturnBook (Some ''bob'') ''c'' 3] = store_returned
 \<and> rental_tbl store_returned = [bob_rental\<lparr>returnedAt := Some 3\<rparr>]
 \<and> userId (bob_rental\<lparr>returnedAt := Some 3\<rparr>) = ''bob''
 \<and> fetchData (Some ''bob'') store_returned = Some []
 \<and> GET_rentals_my (Some ''bob'') store_returned = Inr [bob_rental\<lparr>returnedAt := Some 3\<rparr>]"
proof (intro conjI)
  have "run empty_store
     [CreateBook (Some ''alice'') (Some dune_body) 1,
      RentBook (Some ''bob'') ''c'' 2,
      ReturnBook (Some ''bob'') ''c'' 3]
    = run (run (run empty_store [CreateBook (Some ''alice'') (Some dune_body) 1])
         [RentBook (Some ''bob'') ''c'' 2]) [ReturnBook (Some ''bob'') ''c'' 3]"
    by (simp add: run_def)
  then show "run empty_store
     [CreateBook (Some ''alice'') (Some dune_body) 1,
      RentBook (Some ''bob'') ''c'' 2,
      ReturnBook (Some ''bob'') ''c'' 3] = store_returned"
    by (simp only: store_available_reachable store_rented_reachable store_returned_reachable)
  show "rental_tbl store_returned = [bob_rental\<lparr>returnedAt := Some 3\<rparr>]"
    by (simp add: store_returned_def)
  show "userId (bob_rental\<lparr>returnedAt := Some 3\<rparr>) = ''bob''"
    by (simp add: bob_rental_def)
  show "fetchData (Some ''bob'') store_returned = Some []"
    by (simp add: fetchData_def GET_books_store_returned my_rentals_def sort_desc_def)
  show "GET_rentals_my (Some ''bob'') store_returned = Inr [bob_rental\<lparr>returnedAt := Some 3\<rparr>]"
    by (simp add: GET_rentals_my_def store_returned_def bob_rental_def sort_desc_def)
qed

section \<open>A returned rental is never changed (C6)\<close>

text \<open>
  C6. Let \<open>r\<close> be a rental of the table whose \<open>returnedAt\<close> is set. After any request, a
  row that carries the identifier of \<open>r\<close> is \<open>r\<close> itself: no request changes a field of
  \<open>r\<close>, in particular none re-opens it. A return request keeps \<open>r\<close> in the table (it
  only updates a row with null \<open>returnedAt\<close>), and so does every sequence of requests
  that does not delete the book of \<open>r\<close>; the one way \<open>r\<close> leaves the table is the
  deletion of its book, which removes the row and does not alter it.
\<close>

theorem closed_rental_immutable:
  assumes "distinct (map rental_id (rental_tbl s))"
    and "r \<in> set (rental_tbl s)" and "returnedAt r \<noteq> None"
  shows "(\<forall>r'\<in>set (rental_tbl (step s req)). rental_id r' = rental_id r \<longrightarrow> r' = r)
       \<and> r \<in> set (rental_tbl (step s (ReturnBook session bid now)))
       \<and> ((\<forall>q\<in>set reqs. \<forall>se. q \<noteq> DeleteBook se (bookId r)) \<longrightarrow>
            r \<in> set (rental_tbl (run s reqs)))"
proof (intro conjI ballI impI)
  fix r' assume "r' \<in> set (rental_tbl (step s req))" and "rental_id r' = rental_id r"
  then show "r' = r" using assms step_same_id by blast
next
  show "r \<in> set (rental_tbl (step s (ReturnBook session bid now)))"
    using assms by (intro step_keeps_closed) auto
next
  assume "\<forall>q\<in>set reqs. \<forall>se. q \<noteq> DeleteBook se (bookId r)"
  then show "r \<in> set (rental_tbl (run s reqs))"
    using assms run_keeps_closed by blast
qed

theorem closed_rental_immutable_witness:
  "distinct (map rental_id (rental_tbl store_returned))
 \<and> bob_rental\<lparr>returnedAt := Some 3\<rparr> \<in> set (rental_tbl store_returned)
 \<and> returnedAt (bob_rental\<lparr>returnedAt := Some 3\<rparr>) \<noteq> None
 \<and> bob_rental\<lparr>returnedAt := Some 3\<rparr>
      \<in> set (rental_tbl (step store_returned (ReturnBook (Some ''bob'') ''c'' 4)))
 \<and> bob_rental\<lparr>returnedAt := Some 3\<rparr>
      \<in> set (rental_tbl (run store_returned
            [RentBook (Some ''alice'') ''c'' 4, ReturnBook (Some ''alice'') ''c'' 5,
             ReturnBook (Some ''bob'') ''c'' 6]))"
  using closed_rental_immutable [of store_returned "bob_rental\<lparr>returnedAt := Some 3\<rparr>"
      "ReturnBook (Some ''bob'') ''c'' 4" "Some ''bob''" "''c''" 4
      "[RentBook (Some ''alice'') ''c'' 4, ReturnBook (Some ''alice'') ''c'' 5,
        ReturnBook (Some ''bob'') ''c'' 6]"]
  by (simp add: example_defs)

section \<open>Creating a book (C7)\<close>

text \<open>
  The claim C7 as it is written, "otherwise inserts exactly one Book row", fails on a
  request of an authenticated user in which title, author and coverImage are all present
  and truthy but a field has the wrong type: the handler passes the values on untested,
  \<open>prisma.book.create\<close> throws, and the \<open>catch\<close> answers status 500 with no row
  inserted. Below, a number as title and a number as ISBN.
\<close>

theorem POST_books_wrong_type:
  "\<not> falsy (Some ''alice'')
 \<and> \<not> falsy_json (title_in numeric_title_body)
 \<and> \<not> falsy_json (author_in numeric_title_body)
 \<and> \<not> falsy_json (coverImage_in numeric_title_body)
 \<and> POST_books (Some ''alice'') (Some numeric_title_body) 1 empty_store =
     (Inl (Internal ''Failed to create book''), empty_store)
 \<and> \<not> falsy_json (title_in numeric_isbn_body)
 \<and> \<not> falsy_json (author_in numeric_isbn_body)
 \<and> \<not> falsy_json (coverImage_in numeric_isbn_body)
 \<and> POST_books (Some ''alice'') (Some numeric_isbn_body) 1 empty_store =
     (Inl (Internal ''Failed to create book''), empty_store)
 \<and> book_tbl empty_store = []"
  by (simp add: example_defs POST_books_def book_create_def)

text \<open>
  C7, amended. \<open>POST /api/books\<close> answers Unauthorized when there is no authenticated
  user; answers BadRequest when title, author or coverImage is missing (the test \<open>!v\<close>:
  absent, null, empty, false or zero); answers Internal (status 500) when the body cannot
  be read, or when the three fields pass that test but title, author or coverImage is not
  a string, or isbn or description is neither a string nor absent nor null. The store is
  unchanged in all these cases. Otherwise, that is when title, author and coverImage are
  non-empty strings and isbn and description are strings, absent or null, it appends
  exactly one Book row, with a new identifier, the fields of the body, and the caller as
  owner.
\<close>

theorem POST_books_cases:
  "(falsy session \<longrightarrow>
      POST_books session body now s = (Inl (Unauthorized ''Unauthorized''), s))
 \<and> (\<not> falsy session \<and> body = Some b
      \<and> (falsy_json (title_in b) \<or> falsy_json (author_in b) \<or> falsy_json (coverImage_in b))
    \<longrightarrow>
      POST_books session body now s =
        (Inl (BadRequest ''Title, author and cover image are required''), s))
 \<and> (\<not> falsy session \<and> body = None \<longrightarrow>
      POST_books session body now s = (Inl (Internal ''Failed to create book''), s))
 \<and> (\<not> falsy session \<and> body = Some b
      \<and> \<not> falsy_json (title_in b) \<and> \<not> falsy_json (author_in b)
      \<and> \<not> falsy_json (coverImage_in b)
      \<and> (string_arg (title_in b) = None \<or> string_arg (author_in b) = None
          \<or> string_arg (coverImage_in b) = None
          \<or> optional_string_arg (isbn_in b) = None
          \<or> optional_string_arg (description_in b) = None)
    \<longrightarrow>
      POST_books session body now s = (Inl (Internal ''Failed to create book''), s))
 \<and> (session = Some uid \<and> uid \<noteq> [] \<and> body = Some b
      \<and> title_in b = Some (JString t) \<and> t \<noteq> []
      \<and> author_in b = Some (JString a) \<and> a \<noteq> []
      \<and> coverImage_in b = Some (JString c) \<and> c \<noteq> []
      \<and> optional_string_arg (isbn_in b) = Some i
      \<and> optional_string_arg (description_in b) = Some d
    \<longrightarrow>
      (\<exists>bk. POST_books session body now s = (Inr bk, s\<lparr>book_tbl := book_tbl s @ [bk]\<rparr>)
         \<and> ownerId bk = uid \<and> title bk = t \<and> author bk = a \<and> coverImage bk = c
         \<and> isbn bk = i \<and> description bk = d \<and> createdAt bk = now
         \<and> book_id bk \<notin> book_id ` set (book_tbl s)))"
proof (intro conjI impI)
  assume "falsy session"
  then show "POST_books session body now s = (Inl (Unauthorized ''Unauthorized''), s)"
    by (simp add: POST_books_def)
next
  assume "\<not> falsy session \<and> body = Some b
      \<and> (falsy_json (title_in b) \<or> falsy_json (author_in b) \<or> falsy_json (coverImage_in b))"
  then show "POST_books session body now s =
        (Inl (BadRequest ''Title, author and cover image are required''), s)"
    by (auto simp: POST_books_def)
next
  assume "\<not> falsy session \<and> body = None"
  then show "POST_books session body now s = (Inl (Internal ''Failed to create book''), s)"
    by (simp add: POST_books_def)
next
  assume h: "\<not> falsy session \<and> body = Some b
      \<and> \<not> falsy_json (title_in b) \<and> \<not> falsy_json (author_in b)
      \<and> \<not> falsy_json (coverImage_in b)
      \<and> (string_arg (title_in b) = None \<or> string_arg (author_in b) = None
          \<or> string_arg (coverImage_in b) = None
          \<or> optional_string_arg (isbn_in b) = None
          \<or> optional_string_arg (description_in b) = None)"
  then have "book_create b (the session) now s = None"
    by (auto simp: book_create_def split: option.splits)
  then show "POST_books session body now s = (Inl (Internal ''Failed to create book''), s)"
    using h by (simp add: POST_books_def)
next
  assume h: "session = Some uid \<and> uid \<noteq> [] \<and> body = Some b
      \<and> title_in b = Some (JString t) \<and> t \<noteq> []
      \<and> author_in b = Some (JString a) \<and> a \<noteq> []
      \<and> coverImage_in b = Some (JString c) \<and> c \<noteq> []
      \<and> optional_string_arg (isbn_in b) = Some i
      \<and> optional_string_arg (description_in b) = Some d"
  define bk where "bk = \<lparr>book_id = fresh_id (map book_id (book_tbl s)),
      title = t, author = a, isbn = i, description = d, coverImage = c,
      ownerId = uid, createdAt = now\<rparr>"
  have fresh: "book_id bk \<notin> book_id ` set (book_tbl s)"
    using fresh_id_notin [of "map book_id (book_tbl s)"] by (simp add: bk_def)
  have "book_create b uid now s = Some (bk, s\<lparr>book_tbl := book_tbl s @ [bk]\<rparr>)"
    using h by (simp add: book_create_def bk_def Let_def)
  then have "POST_books session body now s = (Inr bk, s\<lparr>book_tbl := book_tbl s @ [bk]\<rparr>)"
    using h by (simp add: POST_books_def)
  then show "\<exists>bk. POST_books session body now s = (Inr bk, s\<lparr>book_tbl := book_tbl s @ [bk]\<rparr>)
         \<and> ownerId bk = uid \<and> title bk = t \<and> author bk = a \<and> coverImage bk = c
         \<and> isbn bk = i \<and> description bk = d \<and> createdAt bk = now
         \<and> book_id bk \<notin> book_id ` set (book_tbl s)"
    using fresh by (intro exI [of _ bk]) (simp add: bk_def)
qed

theorem POST_books_cases_witness:
  "falsy None
 \<and> POST_books None (Some dune_body) 1 empty_store =
     (Inl (Unauthorized ''Unauthorized''), empty_store)
 \<and> \<not> falsy (Some ''alice'')
 \<and> falsy_json (title_in (dune_body\<lparr>title_in := None\<rparr>))
 \<and> POST_books (Some ''alice'') (Some (dune_body\<lparr>title_in := None\<rparr>)) 1 empty_store =
     (Inl (BadRequest ''Title, author and cover image are required''), empty_store)
 \<and> POST_books (Some ''alice'') None 1 empty_store =
     (Inl (Internal ''Failed to create book''), empty_store)
 \<and> \<not> falsy_json (title_in numeric_isbn_body)
 \<and> \<not> falsy_json (author_in numeric_isbn_body)
 \<and> \<not> falsy_json (coverImage_in numeric_isbn_body)
 \<and> optional_string_arg (isbn_in numeric_isbn_body) = None
 \<and> POST_books (Some ''alice'') (Some numeric_isbn_body) 1 empty_store =
     (Inl (Internal ''Failed to create book''), empty_store)
 \<and> optional_string_arg (isbn_in dune_body) = Some None
 \<and> optional_string_arg (description_in dune_body) = Some None
 \<and> POST_books (Some ''alice'') (Some dune_body) 1 empty_store = (Inr dune, store_available)
 \<and> ownerId dune = ''alice''"
proof -
  have u: "POST_books None (Some dune_body) 1 empty_store =
      (Inl (Unauthorized ''Unauthorized''), empty_store)"
    using POST_books_cases [where session = None and body = "Some dune_body" and now = 1
        and s = empty_store]
    by simp
  have b: "POST_books (Some ''alice'') (Some (dune_body\<lparr>title_in := None\<rparr>)) 1 empty_store =
      (Inl (BadRequest ''Title, author and cover image are required''), empty_store)"
    using POST_books_cases [where session = "Some ''alice''"
        and body = "Some (dune_body\<lparr>title_in := None\<rparr>)"
        and b = "dune_body\<lparr>title_in := None\<rparr>" and now = 1 and s = empty_store]
    by simp
  have n: "POST_books (Some ''alice'') None 1 empty_store =
      (Inl (Internal ''Failed to create book''), empty_store)"
    using POST_books_cases [where session = "Some ''alice''" and body = None and now = 1
        and s = empty_store]
    by simp
  have t: "\<not> falsy_json (title_in numeric_isbn_body)"
    "\<not> falsy_json (author_in numeric_isbn_body)"
    "\<not> falsy_json (coverImage_in numeric_isbn_body)"
    "optional_string_arg (isbn_in numeric_isbn_body) = None"
    by (simp_all add: numeric_isbn_body_def dune_body_def)
  have w: "POST_books (Some ''alice'') (Some numeric_isbn_body) 1 empty_store =
      (Inl (Internal ''Failed to create book''), empty_store)"
    using POST_books_cases [where session = "Some ''alice''"
        and body = "Some numeric_isbn_body" and b = numeric_isbn_body and now = 1
        and s = empty_store] t
    by simp
  have o: "optional_string_arg (isbn_in dune_body) = Some None"
    "optional_string_arg (description_in dune_body) = Some None"
    by (simp_all add: dune_body_def)
  have "\<exists>bk. POST_books (Some ''alice'') (Some dune_body) 1 empty_store =
          (Inr bk, empty_store\<lparr>book_tbl := book_tbl empty_store @ [bk]\<rparr>)
        \<and> ownerId bk = ''alice''"
    using POST_books_cases [where session = "Some ''alice''" and body = "Some dune_body"
        and b = dune_body and now = 1 and s = empty_store and uid = "''alice''"
        and t = "''Dune''" and a = "''Herbert''" and c = "''dune.png''"
        and i = None and d = None] o
    by (simp add: dune_body_def) blast
  moreover have "POST_books (Some ''alice'') (Some dune_body) 1 empty_store =
      (Inr dune, store_available)"
    by (simp add: example_defs POST_books_def book_create_def fresh_id_def Let_def)
  ultimately show ?thesis
    using u b n t w o by (simp add: dune_def)
qed

section \<open>Listing with the availability filter (C8)\<close>

text \<open>
  C8. \<open>GET /api/books?available=true\<close> answers exactly the books that have no rental
  with null \<open>returnedAt\<close>, \<open>available=false\<close> exactly the books that have one, and the
  request without the parameter all books (each in the order of \<open>createdAt\<close>
  descending). Every book of an answer carries \<open>isAvailable\<close> and \<open>currentRental\<close>
  computed from its active rentals.
\<close>

theorem list_filter:
  "map data (GET_books (Some ''true'') s) =
     filter (\<lambda>b. \<not> (\<exists>r. is_active_rental s (book_id b) r)) (sort_desc createdAt (book_tbl s))
 \<and> map data (GET_books (Some ''false'') s) =
     filter (\<lambda>b. \<exists>r. is_active_rental s (book_id b) r) (sort_desc createdAt (book_tbl s))
 \<and> map data (GET_books None s) = sort_desc createdAt (book_tbl s)
 \<and> set (map data (GET_books None s)) = set (book_tbl s)
 \<and> length (GET_books None s) = length (book_tbl s)
 \<and> (\<forall>v\<in>set (GET_books available s).
       v = with_status (data v, active_rentals (book_id (data v)) s)
     \<and> isAvailable v = (active_rentals (book_id (data v)) s = [])
     \<and> currentRental v =
         (case active_rentals (book_id (data v)) s of [] \<Rightarrow> None | r # rs \<Rightarrow> Some r))"
proof (intro conjI ballI)
  show "map data (GET_books (Some ''true'') s) =
     filter (\<lambda>b. \<not> (\<exists>r. is_active_rental s (book_id b) r)) (sort_desc createdAt (book_tbl s))"
    using map_data_with_status [of "\<lambda>br. length (snd br) = 0" "\<lambda>b. active_rentals (book_id b) s"]
    by (simp add: GET_books_def Let_def active_rentals_Nil)
  show "map data (GET_books (Some ''false'') s) =
     filter (\<lambda>b. \<exists>r. is_active_rental s (book_id b) r) (sort_desc createdAt (book_tbl s))"
    using map_data_with_status [of "\<lambda>br. length (snd br) > 0" "\<lambda>b. active_rentals (book_id b) s"]
    by (simp add: GET_books_def Let_def active_rentals_Nil)
  show all: "map data (GET_books None s) = sort_desc createdAt (book_tbl s)"
    by (simp add: GET_books_def Let_def comp_def)
  show "set (map data (GET_books None s)) = set (book_tbl s)"
    unfolding all by simp
  show "length (GET_books None s) = length (book_tbl s)"
    by (simp add: GET_books_def Let_def sort_desc_def)
next
  fix v assume "v \<in> set (GET_books available s)"
  then obtain b where v: "v = with_status (b, active_rentals (book_id b) s)"
    using GET_books_elem by blast
  show "v = with_status (data v, active_rentals (book_id (data v)) s)" using v by simp
  show "isAvailable v = (active_rentals (book_id (data v)) s = [])" using v by simp
  show "currentRental v =
         (case active_rentals (book_id (data v)) s of [] \<Rightarrow> None | r # rs \<Rightarrow> Some r)"
    using v by simp
qed

theorem list_filter_witness:
  "map data (GET_books (Some ''true'') store_rented) = []
 \<and> map data (GET_books (Some ''false'') store_rented) = [dune]
 \<and> map data (GET_books (Some ''true'') store_returned) = [dune]
 \<and> map data (GET_books (Some ''false'') store_returned) = []
 \<and> dune_rented \<in> set (GET_books (Some ''false'') store_rented)
 \<and> dune_rented = with_status (dune, active_rentals ''c'' store_rented)
 \<and> dune_free \<in> set (GET_books (Some ''true'') store_returned)
 \<and> dune_free = with_status (dune, active_rentals ''c'' store_returned)"
  using list_filter [of store_rented "Some ''false''"]
    list_filter [of store_returned "Some ''true''"]
  by (simp add: example_defs GET_books_def sort_desc_def active_rentals_def with_status_def
      is_active_rental_def Let_def)

section \<open>Deleting a rented book (C9)\<close>

text \<open>
  C9. The owner's delete request has no condition on availability: when the book has an
  active rental, held by any user, the request succeeds, the active rental is gone from
  the Rental table, the book has no active rental left, and the book is gone.
\<close>

theorem owner_delete_ends_rental:
  assumes "session = Some uid" and "uid \<noteq> []"
    and "book_findUnique bid s = Some b" and "ownerId b = uid"
    and "is_active_rental s bid r"
  shows "fst (DELETE_book session bid s) = Inr True
       \<and> r \<notin> set (rental_tbl (snd (DELETE_book session bid s)))
       \<and> \<not> (\<exists>r'. is_active_rental (snd (DELETE_book session bid s)) bid r')
       \<and> bid \<notin> book_id ` set (book_tbl (snd (DELETE_book session bid s)))"
  using assms
  by (auto simp: DELETE_book_def book_delete_def rental_deleteMany_def is_active_rental_iff)

theorem owner_delete_ends_rental_witness:
  "''alice'' \<noteq> []
 \<and> book_findUnique ''c'' store_rented = Some dune
 \<and> ownerId dune = ''alice''
 \<and> is_active_rental store_rented ''c'' bob_rental
 \<and> userId bob_rental = ''bob''
 \<and> DELETE_book (Some ''alice'') ''c'' store_rented = (Inr True, empty_store)
 \<and> bob_rental \<notin> set (rental_tbl (snd (DELETE_book (Some ''alice'') ''c'' store_rented)))"
  using owner_delete_ends_rental [of "Some ''alice''" "''alice''" "''c''" store_rented dune bob_rental]
  by (simp add: example_defs DELETE_book_def book_findUnique_def book_delete_def
      rental_deleteMany_def is_active_rental_def)

section \<open>Empty strings in a create request (C10)\<close>

text \<open>
  C10. For an authenticated caller, a create request in which title, author or
  coverImage is the empty string answers BadRequest and leaves the store unchanged. For
  every caller, a request with one of the three fields empty gets the answer of the same
  request with the field absent.
\<close>

theorem empty_string_as_absent:
  "(session = Some uid \<and> uid \<noteq> []
      \<and> (title_in b = Some (JString []) \<or> author_in b = Some (JString [])
          \<or> coverImage_in b = Some (JString [])) \<longrightarrow>
      POST_books session (Some b) now s =
        (Inl (BadRequest ''Title, author and cover image are required''), s))
 \<and> POST_books session (Some (b\<lparr>title_in := Some (JString [])\<rparr>)) now s =
     POST_books session (Some (b\<lparr>title_in := None\<rparr>)) now s
 \<and> POST_books session (Some (b\<lparr>author_in := Some (JString [])\<rparr>)) now s =
     POST_books session (Some (b\<lparr>author_in := None\<rparr>)) now s
 \<and> POST_books session (Some (b\<lparr>coverImage_in := Some (JString [])\<rparr>)) now s =
     POST_books session (Some (b\<lparr>coverImage_in := None\<rparr>)) now s"
  by (auto simp: POST_books_def Let_def)

theorem empty_string_as_absent_witness:
  "''alice'' \<noteq> []
 \<and> title_in (dune_body\<lparr>title_in := Some (JString [])\<rparr>) = Some (JString [])
 \<and> POST_books (Some ''alice'') (Some (dune_body\<lparr>title_in := Some (JString [])\<rparr>)) 1 empty_store =
     (Inl (BadRequest ''Title, author and cover image are required''), empty_store)
 \<and> POST_books (Some ''alice'') (Some (dune_body\<lparr>coverImage_in := Some (JString [])\<rparr>)) 1 empty_store =
     (Inl (BadRequest ''Title, author and cover image are required''), empty_store)"
  using empty_string_as_absent [of "Some ''alice''" "''alice''"
      "dune_body\<lparr>title_in := Some (JString [])\<rparr>" 1 empty_store]
    empty_string_as_absent [of "Some ''alice''" "''alice''"
      "dune_body\<lparr>coverImage_in := Some (JString [])\<rparr>" 1 empty_store]
  by (simp add: example_defs)

end
